theory Spec2Isabelle
  imports Main "HOL-Library.Finite_Map"
begin

section \<open>AttachStep: step membership, attachment strategy and measurement effect\<close>

text \<open>
  A shallow embedding of \<^verbatim>\<open>AttachStep.component.tsx\<close>. The component does three things:
  \<^item> \<^verbatim>\<open>checkIndex\<close> decides whether the wrapper is the active step of the tour;
  \<^item> the render body picks one of two ways of attaching a reference to the child;
  \<^item> a \<^verbatim>\<open>useEffect\<close> body measures the referenced view and reports to the controller.

  Conventions of the embedding.
  \<^item> Step indices are \<^typ>\<open>int\<close>: the TypeScript type is \<^verbatim>\<open>number\<close>, of which only the
    integral values are modelled (no \<^verbatim>\<open>NaN\<close>, no fractions). On those values \<^verbatim>\<open>===\<close> and the
    comparison of \<^verbatim>\<open>Array.prototype.includes\<close> are both plain equality.
  \<^item> \<^verbatim>\<open>undefined\<close> for the active step is \<^term>\<open>None\<close>.
  \<^item> A JavaScript object is a finite map from property names to values; the order of the
    properties is not modelled. A property that is absent reads as \<^verbatim>\<open>undefined\<close>.
\<close>

subsection \<open>The index of a step and the membership check\<close>

text \<open>\<^verbatim>\<open>index: number | Array<number>\<close>\<close>

datatype step_index = Single int | Multiple "int list"

text \<open>
  \<^verbatim>\<open>Array.prototype.includes\<close>: a scan from the left that stops at the first element equal
  to the one searched for.
\<close>

fun array_includes :: "int list \<Rightarrow> int \<Rightarrow> bool" where
  "array_includes [] searchElement = False"
| "array_includes (e # es) searchElement =
     (if e = searchElement then True else array_includes es searchElement)"

text \<open>
  \<^verbatim>\<open>
  function checkIndex(index, current: number | undefined): boolean {
    if (current === undefined) { return false; }
    if (Array.isArray(index)) { return index.includes(current); }
    return current === index;
  }
  \<close>
\<close>

fun checkIndex :: "step_index \<Rightarrow> int option \<Rightarrow> bool" where
  "checkIndex index None = False"
| "checkIndex (Multiple xs) (Some current) = array_includes xs current"
| "checkIndex (Single i) (Some current) = (current = i)"

subsection \<open>String conversion of an index\<close>

text \<open>
  The dependency list of the effect holds \<^verbatim>\<open>index.toString()\<close>. For a number that is its
  decimal notation, for an array the notations of its elements joined by commas. The
  decimal notation is what \<^verbatim>\<open>Number.prototype.toString\<close> gives for the integers that a number
  holds exactly and that are below \<open>10\<^sup>2\<^sup>1\<close> in absolute value; from there on JavaScript
  prints an exponent, which is not modelled. The indices of the steps of a tour are far
  below that.
\<close>

definition digit_char :: "nat \<Rightarrow> char" where
  "digit_char d = ''0123456789'' ! d"

function string_of_nat :: "nat \<Rightarrow> string" where
  "string_of_nat n = (if n < 10 then [digit_char n] else string_of_nat (n div 10) @ [digit_char (n mod 10)])"
  by pat_completeness auto
termination
  by (relation "measure id") auto

declare string_of_nat.simps [simp del]

definition number_toString :: "int \<Rightarrow> string" where
  "number_toString n = (if n < 0 then CHR ''-'' # string_of_nat (nat (- n)) else string_of_nat (nat n))"

fun join :: "string \<Rightarrow> string list \<Rightarrow> string" where
  "join separator [] = []"
| "join separator [s] = s"
| "join separator (s # t # ss) = s @ separator @ join separator (t # ss)"

fun toString :: "step_index \<Rightarrow> string" where
  "toString (Single i) = number_toString i"
| "toString (Multiple xs) = join '','' (map number_toString xs)"

subsection \<open>JavaScript values and React elements\<close>

text \<open>
  The type of an element is what \<^verbatim>\<open>typeof children.type\<close> tells apart: a string for a host
  component, a function for a function or class component, an object for what
  \<^verbatim>\<open>forwardRef\<close> and \<^verbatim>\<open>memo\<close> return. A component may carry \<^verbatim>\<open>defaultProps\<close>.
\<close>

datatype 'p elem_type =
    HostComponent string
  | FunctionComponent string "'p option"
  | ExoticComponent string "'p option"

datatype 'v element =
  ReactElement (type: "(string, 'v) fmap elem_type") (key: 'v) (ref: 'v) (props: "(string, 'v) fmap")

text \<open>
  The values that a property can hold. \<open>RefObject r\<close> is the object that \<^verbatim>\<open>useRef\<close> returns,
  known by its identity \<open>r\<close>; its \<^verbatim>\<open>current\<close> field is mutable and lives outside the value
  (see the effect below). Function values (event handlers, callback refs) are not modelled.
\<close>

datatype jsval =
    Undefined
  | Null
  | Bool bool
  | Num int
  | Str string
  | Obj "(string, jsval) fmap"
  | Arr "jsval list"
  | RefObject nat
  | Element "jsval element"

type_synonym object = "(string, jsval) fmap"

text \<open>Reading a property: \<^verbatim>\<open>o.k\<close> is \<^verbatim>\<open>undefined\<close> when \<open>o\<close> has no property \<open>k\<close>.\<close>

definition get :: "object \<Rightarrow> string \<Rightarrow> jsval" where
  "get obj k = (case fmlookup obj k of None \<Rightarrow> Undefined | Some v \<Rightarrow> v)"

text \<open>\<^verbatim>\<open>a ?? b\<close>\<close>

definition nullish :: "jsval \<Rightarrow> jsval \<Rightarrow> jsval" where
  "nullish a b = (if a = Undefined \<or> a = Null then b else a)"

text \<open>\<^verbatim>\<open>'' + v\<close>, the string conversion that React applies to a key.\<close>

primrec js_string :: "jsval \<Rightarrow> string" where
  "js_string Undefined = ''undefined''"
| "js_string Null = ''null''"
| "js_string (Bool b) = (if b then ''true'' else ''false'')"
| "js_string (Num n) = number_toString n"
| "js_string (Str s) = s"
| "js_string (Obj m) = ''[object Object]''"
| "js_string (Arr vs) =
     join '','' (map (\<lambda>v. if v = Undefined \<or> v = Null then [] else js_string v) vs)"
| "js_string (RefObject r) = ''[object Object]''"
| "js_string (Element e) = ''[object Object]''"

text \<open>
  The own enumerable properties that an object spread \<^verbatim>\<open>{ ...v }\<close> copies: the properties
  of a plain object, the indices of an array or of a string, nothing for the other
  primitives. For a ref object and for an element the model does not track the
  properties (\<^verbatim>\<open>current\<close>; \<^verbatim>\<open>$$typeof\<close>, \<^verbatim>\<open>_owner\<close>, ...), and the answer is \<^term>\<open>None\<close>.
\<close>

definition indexed :: "jsval list \<Rightarrow> object" where
  "indexed vs = fmap_of_list (zip (map string_of_nat [0 ..< length vs]) vs)"

fun own_enumerable :: "jsval \<Rightarrow> object option" where
  "own_enumerable (Obj m) = Some m"
| "own_enumerable (Arr vs) = Some (indexed vs)"
| "own_enumerable (Str s) = Some (indexed (map (\<lambda>c. Str [c]) s))"
| "own_enumerable Undefined = Some fmempty"
| "own_enumerable Null = Some fmempty"
| "own_enumerable (Bool b) = Some fmempty"
| "own_enumerable (Num n) = Some fmempty"
| "own_enumerable (RefObject r) = None"
| "own_enumerable (Element e) = None"

subsection \<open>The two React functions that the component calls\<close>

text \<open>
  \<^verbatim>\<open>cloneElement\<close> and \<^verbatim>\<open>createElement\<close> (to which JSX compiles) belong to React, not to
  this repository. They are modelled after React 17 and 18, where \<^verbatim>\<open>key\<close> and \<^verbatim>\<open>ref\<close> are
  fields of the element and never properties; the development-only fields
  (\<^verbatim>\<open>_owner\<close>, \<^verbatim>\<open>_self\<close>, \<^verbatim>\<open>_source\<close>) are left out.
\<close>

definition RESERVED_PROPS :: "string list" where
  "RESERVED_PROPS = [''key'', ''ref'', ''__self'', ''__source'']"

fun defaultProps :: "'p elem_type \<Rightarrow> 'p option" where
  "defaultProps (HostComponent name) = None"
| "defaultProps (FunctionComponent name dp) = dp"
| "defaultProps (ExoticComponent name dp) = dp"

text \<open>
  The children passed after the second argument: none leaves \<^verbatim>\<open>props.children\<close> alone,
  one is stored as it is, several are stored as an array.
\<close>

fun with_children :: "object \<Rightarrow> jsval list \<Rightarrow> object" where
  "with_children obj [] = obj"
| "with_children obj [c] = fmupd ''children'' c obj"
| "with_children obj cs = fmupd ''children'' (Arr cs) obj"

text \<open>
  \<^verbatim>\<open>cloneElement(element, config, ...children)\<close>: the properties of the element are copied
  first; then every own property of \<open>config\<close> that is not reserved overrides the copy
  (an \<^verbatim>\<open>undefined\<close> one resolves to the default when the type has defaults); a \<^verbatim>\<open>ref\<close> or a
  \<^verbatim>\<open>key\<close> of \<open>config\<close> that is not \<^verbatim>\<open>undefined\<close> replaces the element's. A property absent
  from \<open>config\<close> is kept, not removed.
\<close>

definition overrides :: "object option \<Rightarrow> object \<Rightarrow> object" where
  "overrides defaults config =
     fmmap_keys
       (\<lambda>propName v.
          case defaults of
            Some dp \<Rightarrow> if v = Undefined then get dp propName else v
          | None \<Rightarrow> v)
       (fmfilter (\<lambda>propName. propName \<notin> set RESERVED_PROPS) config)"

definition cloneElement :: "jsval element \<Rightarrow> object \<Rightarrow> jsval list \<Rightarrow> jsval element" where
  "cloneElement element config childrenArgs =
     (let new_ref = (if get config ''ref'' \<noteq> Undefined then get config ''ref'' else ref element);
          new_key = (if get config ''key'' \<noteq> Undefined then Str (js_string (get config ''key''))
                     else key element)
      in ReactElement (type element) new_key new_ref
           (with_children
              (props element ++\<^sub>f overrides (defaultProps (type element)) config)
              childrenArgs))"

text \<open>
  \<^verbatim>\<open>createElement(type, config, ...children)\<close>: the properties are the own properties of
  \<open>config\<close> that are not reserved, then the children, then the defaults of the type for
  every property that still reads \<^verbatim>\<open>undefined\<close>.
\<close>

definition createElement :: "object elem_type \<Rightarrow> object \<Rightarrow> jsval list \<Rightarrow> jsval element" where
  "createElement ty config childrenArgs =
     (let new_ref = (if get config ''ref'' \<noteq> Undefined then get config ''ref'' else Null);
          new_key = (if get config ''key'' \<noteq> Undefined then Str (js_string (get config ''key''))
                     else Null);
          own = with_children (fmfilter (\<lambda>propName. propName \<notin> set RESERVED_PROPS) config)
                  childrenArgs
      in ReactElement ty new_key new_ref
           (case defaultProps ty of
              None \<Rightarrow> own
            | Some dp \<Rightarrow> own ++\<^sub>f fmfilter (\<lambda>propName. get own propName = Undefined) dp))"

text \<open>
  What \<^verbatim>\<open>createElement\<close> and \<^verbatim>\<open>cloneElement\<close> guarantee of every element they build: a
  property that reads \<^verbatim>\<open>undefined\<close> has no default either.
\<close>

definition defaults_resolved :: "jsval element \<Rightarrow> bool" where
  "defaults_resolved element =
     (case defaultProps (type element) of
        None \<Rightarrow> True
      | Some dp \<Rightarrow> fmpred (\<lambda>propName v. v = Undefined \<longrightarrow> get dp propName = Undefined) (props element))"

text \<open>
  An element as React builds it: defaults resolved, and no reserved name among the
  properties (\<^verbatim>\<open>key\<close> and \<^verbatim>\<open>ref\<close> are taken out of \<open>config\<close> into their own fields).
\<close>

definition well_formed :: "jsval element \<Rightarrow> bool" where
  "well_formed element =
     (defaults_resolved element
      \<and> (\<forall>propName \<in> set RESERVED_PROPS. propName |\<notin>| fmdom (props element)))"

text \<open>React Native's \<^verbatim>\<open>View\<close>, which the component only names.\<close>

definition View :: "object elem_type" where
  "View = ExoticComponent ''View'' None"

subsection \<open>The render body of AttachStep\<close>

text \<open>\<^verbatim>\<open>typeof children.type === "function"\<close>\<close>

fun is_function :: "'p elem_type \<Rightarrow> bool" where
  "is_function (FunctionComponent name dp) = True"
| "is_function (HostComponent name) = False"
| "is_function (ExoticComponent name dp) = False"

text \<open>
  \<^verbatim>\<open>
  export function AttachStep<T>({ children, fill = false, index }: AttachStepProps<T>) {
    ...
    const childRef = useRef<View>(null);
    ...
    if (typeof children.type === "function") {
      const { style, ...rest } = children.props;
      const childStyle = style ?? { };
      return (
        <View testID="attach-wrapper-view" ref={childRef}
              style={{ alignSelf: fill ? "stretch" : "flex-start", ...childStyle }}
              collapsable={false} focusable={false}>
          {cloneElement(children, rest, children.props.children)}
        </View>
      );
    }
    return cloneElement(children, { ...children.props, ref: childRef }, children.props?.children);
  }
  \<close>
  \<open>childRef\<close> is the identity of the ref object; \<open>fill\<close> is \<^term>\<open>None\<close> when the caller
  leaves it out. The render body reads neither \<open>index\<close> nor the context: they are used by
  the effect only. The result is \<^term>\<open>None\<close> only when the spread of the child's style is
  outside the model (see \<^const>\<open>own_enumerable\<close>).
\<close>

definition AttachStep :: "nat \<Rightarrow> jsval element \<Rightarrow> bool option \<Rightarrow> step_index \<Rightarrow> jsval element option" where
  "AttachStep childRef child fill_opt idx =
     (let fill = (case fill_opt of None \<Rightarrow> False | Some b \<Rightarrow> b) in
      if is_function (type child) then
        (let style = get (props child) ''style'';
             rest = fmdrop ''style'' (props child);
             childStyle = nullish style (Obj fmempty)
         in case own_enumerable childStyle of
              None \<Rightarrow> None
            | Some spread \<Rightarrow>
                Some (createElement View
                  (fmap_of_list
                    [(''testID'', Str ''attach-wrapper-view''),
                     (''ref'', RefObject childRef),
                     (''style'',
                        Obj (fmupd ''alignSelf'' (Str (if fill then ''stretch'' else ''flex-start'')) fmempty
                             ++\<^sub>f spread)),
                     (''collapsable'', Bool False),
                     (''focusable'', Bool False)])
                  [Element (cloneElement child rest [get (props child) ''children''])]))
      else
        Some (cloneElement child
                (fmupd ''ref'' (RefObject childRef) (props child))
                [get (props child) ''children'']))"

text \<open>The element that a wrapper renders beneath it: \<^verbatim>\<open>wrapper.props.children\<close>.\<close>

definition rendered_child :: "jsval element \<Rightarrow> jsval element option" where
  "rendered_child wrapper =
     (case get (props wrapper) ''children'' of Element inner \<Rightarrow> Some inner | _ \<Rightarrow> None)"

subsection \<open>The measurement effect\<close>

text \<open>
  The view that \<^verbatim>\<open>childRef.current\<close> holds is known by a handle. The rendering engine is
  outside the repository: it is a parameter that tells, for a view, the coordinates with
  which it calls the callback of \<^verbatim>\<open>measureInWindow\<close> back. What the effect does is the
  list of the calls it makes to the engine and to the controller, in order.
\<close>

type_synonym view = nat

record 'n rectangle =
  rect_height :: 'n
  rect_width :: 'n
  rect_x :: 'n
  rect_y :: 'n

datatype 'n call = MeasureInWindow view | ChangeSpot "'n rectangle"

type_synonym 'n engine = "view \<Rightarrow> ('n \<times> 'n \<times> 'n \<times> 'n) list"

definition measureInWindow ::
  "'n engine \<Rightarrow> view \<Rightarrow> ('n \<Rightarrow> 'n \<Rightarrow> 'n \<Rightarrow> 'n \<Rightarrow> 'n call list) \<Rightarrow> 'n call list" where
  "measureInWindow engine v callback =
     MeasureInWindow v # concat (map (\<lambda>(x, y, width, height). callback x y width height) (engine v))"

definition changeSpot :: "'n rectangle \<Rightarrow> 'n call list" where
  "changeSpot spot = [ChangeSpot spot]"

text \<open>
  \<^verbatim>\<open>
  useEffect(() => {
    if (checkIndex(index, current)) {
      childRef.current?.measureInWindow((x, y, width, height) => {
        changeSpot({ height, width, x, y });
      });
    }
  }, [changeSpot, current, index.toString()]);
  \<close>
\<close>

definition AttachStep_effect ::
  "'n engine \<Rightarrow> step_index \<Rightarrow> int option \<Rightarrow> view option \<Rightarrow> 'n call list" where
  "AttachStep_effect engine idx current childRef_current =
     (if checkIndex idx current then
        (case childRef_current of
           None \<Rightarrow> []
         | Some v \<Rightarrow>
             measureInWindow engine v
               (\<lambda>x y width height.
                  changeSpot \<lparr>rect_height = height, rect_width = width, rect_x = x, rect_y = y\<rparr>))
      else [])"

text \<open>
  The dependency list of the effect, the controller's \<^verbatim>\<open>changeSpot\<close> being known by its
  identity. React runs the effect again when the list differs from that of the render
  before.
\<close>

definition effect_deps :: "nat \<Rightarrow> int option \<Rightarrow> step_index \<Rightarrow> nat \<times> int option \<times> string" where
  "effect_deps changeSpot_id current idx = (changeSpot_id, current, toString idx)"

definition effect_reruns :: "nat \<times> int option \<times> string \<Rightarrow> nat \<times> int option \<times> string \<Rightarrow> bool" where
  "effect_reruns prev_deps next_deps = (prev_deps \<noteq> next_deps)"

section \<open>Properties\<close>

subsection \<open>Reading properties\<close>

lemma get_fmupd [simp]: "get (fmupd k v obj) k' = (if k = k' then v else get obj k')"
  by (simp add: get_def)

lemma get_fmempty [simp]: "get fmempty k = Undefined"
  by (simp add: get_def)

lemma get_fmdrop [simp]: "get (fmdrop k obj) k' = (if k = k' then Undefined else get obj k')"
  by (simp add: get_def)

subsection \<open>The membership check\<close>

lemma array_includes_set: "array_includes xs a = (a \<in> set xs)"
  by (induction xs) auto

text \<open>
  Claim C1. For a defined active step \<open>a\<close>: with an array \<open>S\<close> as index, \<open>checkIndex\<close> is
  true exactly when \<open>a\<close> is an element of \<open>S\<close>, so two arrays with the same elements in any
  order give the same answer; with a single integer \<open>i\<close> as index, it is true exactly
  when \<open>a = i\<close>.
\<close>

theorem checkIndex_membership:
  "(checkIndex (Multiple S) (Some a) \<longleftrightarrow> a \<in> set S)
   \<and> (set S = set S' \<longrightarrow> checkIndex (Multiple S) (Some a) = checkIndex (Multiple S') (Some a))
   \<and> (checkIndex (Single i) (Some a) \<longleftrightarrow> a = i)"
  by (simp add: array_includes_set)

theorem checkIndex_membership_witness:
  "(checkIndex (Multiple [1, 2, 3]) (Some 2) \<longleftrightarrow> (2::int) \<in> set [1, 2, 3])
   \<and> set [1, 2, 3] = set [3, 1, 2::int]
   \<and> checkIndex (Multiple [1, 2, 3]) (Some 2) = checkIndex (Multiple [3, 1, 2]) (Some 2)
   \<and> checkIndex (Multiple [3, 1, 2]) (Some 2)
   \<and> \<not> checkIndex (Multiple [1, 2, 3]) (Some 4)
   \<and> (checkIndex (Single 5) (Some 5) \<longleftrightarrow> (5::int) = 5)
   \<and> \<not> checkIndex (Single 5) (Some 6)"
  using checkIndex_membership [of "[1, 2, 3]" 2 "[3, 1, 2]" 5]
  by (simp add: insert_commute)

subsection \<open>The measurement effect\<close>

text \<open>
  Claim C2. Whatever the configured index (one integer or an array, of any sign and
  size), \<open>checkIndex\<close> is false when the active step is undefined, and the effect then
  makes no call at all: no measurement is requested.
\<close>

theorem checkIndex_undefined:
  "checkIndex idx None = False \<and> AttachStep_effect engine idx None childRef_current = []"
  by (simp add: AttachStep_effect_def)

lemma effect_active:
  "checkIndex idx current \<Longrightarrow>
   AttachStep_effect engine idx current (Some v) =
     MeasureInWindow v #
     map (\<lambda>(x, y, width, height).
            ChangeSpot \<lparr>rect_height = height, rect_width = width, rect_x = x, rect_y = y\<rparr>)
         (engine v)"
  by (simp add: AttachStep_effect_def measureInWindow_def changeSpot_def split_def)

text \<open>
  Claim C6. When the wrapper is the active step, its reference holds a view, and the
  engine answers the request for that view with the coordinates \<open>(x, y, width, height)\<close>,
  the effect requests one measurement and calls \<open>changeSpot\<close> exactly once, with the
  rectangle made of exactly those four values.
\<close>

theorem effect_reports_measurement:
  "checkIndex idx current \<Longrightarrow> engine v = [(x, y, width, height)] \<Longrightarrow>
   AttachStep_effect engine idx current (Some v) =
     [MeasureInWindow v,
      ChangeSpot \<lparr>rect_height = height, rect_width = width, rect_x = x, rect_y = y\<rparr>]"
  by (simp add: effect_active)

theorem effect_reports_measurement_witness:
  "checkIndex (Single 1) (Some 1)
   \<and> (\<lambda>v. [(10::int, 20, 100, 50)]) 0 = [(10, 20, 100, 50)]
   \<and> AttachStep_effect (\<lambda>v. [(10::int, 20, 100, 50)]) (Single 1) (Some 1) (Some 0) =
        [MeasureInWindow 0,
         ChangeSpot \<lparr>rect_height = 50, rect_width = 100, rect_x = 10, rect_y = 20\<rparr>]"
  using effect_reports_measurement
    [of "Single 1" "Some 1" "\<lambda>v. [(10::int, 20, 100, 50)]" 0 10 20 100 50]
  by simp

text \<open>
  Claim C7. When the membership check is false, the effect makes no call: it requests no
  measurement from the engine and never calls \<open>changeSpot\<close>.
\<close>

theorem effect_inactive_noop:
  "\<not> checkIndex idx current \<Longrightarrow> AttachStep_effect engine idx current childRef_current = []"
  by (simp add: AttachStep_effect_def)

theorem effect_inactive_noop_witness:
  "\<not> checkIndex (Multiple [1, 2, 3]) (Some 4)
   \<and> AttachStep_effect (\<lambda>v. [(10::int, 20, 100, 50)]) (Multiple [1, 2, 3]) (Some 4) (Some 0) = []"
  using effect_inactive_noop
    [of "Multiple [1, 2, 3]" "Some 4" "\<lambda>v. [(10::int, 20, 100, 50)]" "Some 0"]
  by simp

text \<open>
  Claim C8. When the reference holds no view at the time of the effect, the request is
  skipped: the effect makes no call, whatever the index, the active step and the engine.
  The effect has no other outcome than its list of calls, so nothing is raised or logged.
\<close>

theorem effect_unresolved_ref_skipped:
  "AttachStep_effect engine idx current None = []"
  by (simp add: AttachStep_effect_def)

text \<open>
  Claim C9. The effect's key for the index is its string conversion, which depends on
  the order of an array: \<open>[1, 2]\<close> and \<open>[2, 1]\<close> have the same elements and the same
  \<open>checkIndex\<close> on every active step, yet their keys are \<open>1,2\<close> and \<open>2,1\<close>, and the
  dependency lists differ, so that the effect runs again.
\<close>

theorem effect_key_order_sensitive:
  "effect_deps c current (Multiple [1, 2]) = (c, current, ''1,2'')
   \<and> effect_deps c current (Multiple [2, 1]) = (c, current, ''2,1'')
   \<and> set [1, 2::int] = set [2, 1]
   \<and> effect_reruns (effect_deps c current (Multiple [1, 2])) (effect_deps c current (Multiple [2, 1]))
   \<and> (\<forall>a. checkIndex (Multiple [1, 2]) a = checkIndex (Multiple [2, 1]) a)"
proof -
  have "checkIndex (Multiple [1, 2]) a = checkIndex (Multiple [2, 1]) a" for a
    by (cases a) auto
  then show ?thesis
    by (simp add: effect_reruns_def effect_deps_def number_toString_def string_of_nat.simps
        digit_char_def insert_commute)
qed

subsection \<open>What React's functions do to the properties\<close>

lemma fmlookup_overrides:
  "fmlookup (overrides defaults config) k =
     (if k \<in> set RESERVED_PROPS then None
      else case fmlookup config k of
             None \<Rightarrow> None
           | Some v \<Rightarrow> Some (case defaults of
                               Some dp \<Rightarrow> if v = Undefined then get dp k else v
                             | None \<Rightarrow> v))"
  by (simp add: overrides_def split: option.splits)

text \<open>A property that \<open>config\<close> does not have is kept by the clone.\<close>

lemma cloneElement_keeps:
  "fmlookup config k = None \<Longrightarrow> k \<noteq> ''children'' \<Longrightarrow>
   get (props (cloneElement e config [c])) k = get (props e) k"
  by (simp add: cloneElement_def get_def fmlookup_overrides fmlookup_dom_iff)

lemma defaults_resolvedD:
  assumes "defaults_resolved e" "defaultProps (type e) = Some dp"
    and "fmlookup (props e) k = Some Undefined"
  shows "get dp k = Undefined"
  using assms by (auto simp: defaults_resolved_def dest: fmpredD)

text \<open>Overriding an element with its own properties changes nothing.\<close>

lemma override_same:
  assumes res: "defaults_resolved e"
    and sub: "\<And>k v. k \<notin> set RESERVED_PROPS \<Longrightarrow> fmlookup config k = Some v
                \<Longrightarrow> fmlookup (props e) k = Some v"
  shows "props e ++\<^sub>f overrides (defaultProps (type e)) config = props e"
proof (rule fmap_ext)
  fix k
  show "fmlookup (props e ++\<^sub>f overrides (defaultProps (type e)) config) k = fmlookup (props e) k"
  proof (cases "k \<notin> set RESERVED_PROPS \<and> fmlookup config k \<noteq> None")
    case False
    then show ?thesis by (auto simp: fmlookup_dom_iff fmlookup_overrides)
  next
    case True
    then obtain v where v: "fmlookup config k = Some v" and k: "k \<notin> set RESERVED_PROPS" by auto
    from sub [OF k v] have pv: "fmlookup (props e) k = Some v" .
    show ?thesis
    proof (cases "defaultProps (type e)")
      case None
      with v k pv show ?thesis by (simp add: fmlookup_dom_iff fmlookup_overrides)
    next
      case (Some dp)
      show ?thesis
      proof (cases "v = Undefined")
        case True
        with defaults_resolvedD [OF res Some] pv have "get dp k = Undefined" by simp
        with v k pv Some True show ?thesis by (simp add: fmlookup_dom_iff fmlookup_overrides)
      next
        case False
        with v k pv Some show ?thesis by (simp add: fmlookup_dom_iff fmlookup_overrides)
      qed
    qed
  qed
qed

lemma cloneElement_same:
  assumes "defaults_resolved e"
    and "\<And>k v. k \<notin> set RESERVED_PROPS \<Longrightarrow> fmlookup config k = Some v
           \<Longrightarrow> fmlookup (props e) k = Some v"
  shows "cloneElement e config [c] =
     ReactElement (type e)
       (if get config ''key'' \<noteq> Undefined then Str (js_string (get config ''key'')) else key e)
       (if get config ''ref'' \<noteq> Undefined then get config ''ref'' else ref e)
       (fmupd ''children'' c (props e))"
proof -
  have "props e ++\<^sub>f overrides (defaultProps (type e)) config = props e"
    using assms by (rule override_same)
  then show ?thesis
    by (simp add: cloneElement_def)
qed

text \<open>Every element that \<open>createElement\<close> builds is well formed.\<close>

lemma createElement_resolved: "defaults_resolved (createElement ty config cs)"
proof (cases "defaultProps ty")
  case None
  then show ?thesis by (simp add: defaults_resolved_def createElement_def Let_def)
next
  case (Some dp)
  then show ?thesis
    unfolding defaults_resolved_def createElement_def Let_def
    by (auto intro!: fmpredI simp: get_def fmlookup_dom_iff split: option.splits if_splits)
qed

subsection \<open>The render body: a function-defined child\<close>

lemma wrapper_shape:
  "createElement View
     (fmupd ''testID'' t (fmupd ''ref'' (RefObject r) (fmupd ''style'' s
        (fmupd ''collapsable'' c (fmupd ''focusable'' f fmempty)))))
     [inner] =
   ReactElement View Null (RefObject r)
     (fmupd ''children'' inner
        (fmupd ''testID'' t (fmupd ''style'' s (fmupd ''collapsable'' c (fmupd ''focusable'' f fmempty)))))"
  by (simp add: createElement_def View_def RESERVED_PROPS_def)

lemma AttachStep_composite:
  assumes "is_function (type child)"
    and "own_enumerable (nullish (get (props child) ''style'') (Obj fmempty)) = Some spread"
  shows "AttachStep childRef child fill_opt idx =
     Some (ReactElement View Null (RefObject childRef)
       (fmupd ''children''
          (Element (cloneElement child (fmdrop ''style'' (props child)) [get (props child) ''children'']))
          (fmupd ''testID'' (Str ''attach-wrapper-view'')
             (fmupd ''style''
                (Obj (fmupd ''alignSelf''
                        (Str (if fill_opt = Some True then ''stretch'' else ''flex-start'')) fmempty
                      ++\<^sub>f spread))
                (fmupd ''collapsable'' (Bool False) (fmupd ''focusable'' (Bool False) fmempty))))))"
  using assms
  by (cases fill_opt) (simp_all add: AttachStep_def wrapper_shape)

text \<open>
  The child that the wrapper renders beneath it reads the same as the original child at
  every property other than \<^verbatim>\<open>children\<close> that \<open>rest\<close> does not have; \<^verbatim>\<open>style\<close> is one of them.
\<close>

lemma composite_child_style_survives:
  assumes "is_function (type child)"
    and "own_enumerable (nullish (get (props child) ''style'') (Obj fmempty)) = Some spread"
  shows "\<exists>wrapper inner.
           AttachStep childRef child fill_opt idx = Some wrapper
         \<and> rendered_child wrapper = Some inner
         \<and> get (props inner) ''style'' = get (props child) ''style''"
  unfolding AttachStep_composite [OF assms]
  by (simp add: rendered_child_def cloneElement_keeps)

text \<open>
  Claim C3. The claim is that the child rendered beneath the wrapper has lost its
  \<^verbatim>\<open>style\<close>. The code passes \<open>rest\<close>, the properties without \<^verbatim>\<open>style\<close>, as the second argument
  of \<^verbatim>\<open>cloneElement\<close>, which only overrides the properties of the element and never
  removes one. For a function component \<^verbatim>\<open>Card\<close> with the properties
  \<^verbatim>\<open>{ style: { margin: 8 }, title: "hi" }\<close>, the child rendered beneath the wrapper still has
  \<^verbatim>\<open>style\<close> equal to \<^verbatim>\<open>{ margin: 8 }\<close>.
\<close>

theorem composite_child_keeps_style:
  "map_option (\<lambda>inner. get (props inner) ''style'')
     (Option.bind
        (AttachStep 0
           (ReactElement (FunctionComponent ''Card'' None) Null Null
              (fmupd ''style'' (Obj (fmupd ''margin'' (Num 8) fmempty))
                 (fmupd ''title'' (Str ''hi'') fmempty)))
           None (Multiple [2]))
        rendered_child)
   = Some (Obj (fmupd ''margin'' (Num 8) fmempty))"
  by (simp add: AttachStep_def Let_def nullish_def wrapper_shape rendered_child_def
      cloneElement_keeps)

text \<open>
  Whatever style the child has, the wrapper is a \<open>View\<close> that holds the reference, is not
  collapsable, is not focusable and has the test identifier \<^verbatim>\<open>attach-wrapper-view\<close>.
\<close>

lemma wrapper_attributes:
  assumes "is_function (type child)"
    and "own_enumerable (nullish (get (props child) ''style'') (Obj fmempty)) = Some spread"
  shows "\<exists>wrapper.
           AttachStep childRef child fill_opt idx = Some wrapper
         \<and> type wrapper = View
         \<and> ref wrapper = RefObject childRef
         \<and> get (props wrapper) ''testID'' = Str ''attach-wrapper-view''
         \<and> get (props wrapper) ''collapsable'' = Bool False
         \<and> get (props wrapper) ''focusable'' = Bool False"
  unfolding AttachStep_composite [OF assms]
  by simp

text \<open>
  When the child's style is a plain object, the wrapper's style has the child's value at
  every key of that object, and the base \<^verbatim>\<open>alignSelf\<close> only when the object has no such key.
\<close>

lemma wrapper_style_plain_object:
  assumes "is_function (type child)"
    and "get (props child) ''style'' = Obj m"
  shows "\<exists>wrapper merged.
           AttachStep childRef child fill_opt idx = Some wrapper
         \<and> get (props wrapper) ''style'' = Obj merged
         \<and> (\<forall>k. fmlookup merged k =
                (case fmlookup m k of
                   Some v \<Rightarrow> Some v
                 | None \<Rightarrow>
                     if k = ''alignSelf''
                     then Some (Str (if fill_opt = Some True then ''stretch'' else ''flex-start''))
                     else None))"
proof -
  from assms(2)
  have "own_enumerable (nullish (get (props child) ''style'') (Obj fmempty)) = Some m"
    by (simp add: nullish_def)
  from AttachStep_composite [OF assms(1) this] show ?thesis
    by (auto simp: fmlookup_dom_iff split: option.splits)
qed

text \<open>When the child has no style, the wrapper's style is the base alone.\<close>

lemma wrapper_style_missing:
  assumes "is_function (type child)"
    and "get (props child) ''style'' = Undefined \<or> get (props child) ''style'' = Null"
  shows "\<exists>wrapper.
           AttachStep childRef child fill_opt idx = Some wrapper
         \<and> get (props wrapper) ''style'' =
             Obj (fmupd ''alignSelf''
                    (Str (if fill_opt = Some True then ''stretch'' else ''flex-start'')) fmempty)"
proof -
  from assms(2)
  have "own_enumerable (nullish (get (props child) ''style'') (Obj fmempty)) = Some fmempty"
    by (auto simp: nullish_def)
  from AttachStep_composite [OF assms(1) this] show ?thesis
    by simp
qed

text \<open>
  Claim C4. The claim is that, for every function-defined child, the wrapper's style is
  the base \<^verbatim>\<open>alignSelf\<close> merged with the child's own style, the child's values winning. The
  type of the \<^verbatim>\<open>style\<close> property is \<^verbatim>\<open>StyleProp<T>\<close>, which also admits an array of styles,
  and the code spreads whatever it finds as if it were one object. For a function
  component \<^verbatim>\<open>Card\<close> with \<^verbatim>\<open>style = [{ margin: 8 }, { alignSelf: "center" }]\<close> and \<open>fill\<close> true, the
  wrapper's style is \<^verbatim>\<open>{ alignSelf: "stretch", 0: { margin: 8 }, 1: { alignSelf: "center" } }\<close>:
  the base \<^verbatim>\<open>alignSelf\<close> wins over the child's, and the child's \<^verbatim>\<open>margin\<close> is not a key of it.
\<close>

theorem wrapper_style_array_not_merged:
  "map_option (\<lambda>wrapper. get (props wrapper) ''style'')
     (AttachStep 0
        (ReactElement (FunctionComponent ''Card'' None) Null Null
           (fmupd ''style''
              (Arr [Obj (fmupd ''margin'' (Num 8) fmempty),
                    Obj (fmupd ''alignSelf'' (Str ''center'') fmempty)])
              fmempty))
        (Some True) (Multiple [2]))
   = Some (Obj (fmupd ''0'' (Obj (fmupd ''margin'' (Num 8) fmempty))
                 (fmupd ''1'' (Obj (fmupd ''alignSelf'' (Str ''center'') fmempty))
                    (fmupd ''alignSelf'' (Str ''stretch'') fmempty))))"
  by (simp add: AttachStep_def Let_def nullish_def wrapper_shape indexed_def upt_rec
      string_of_nat.simps digit_char_def)

subsection \<open>The render body: a child that is not function-defined\<close>

lemma AttachStep_primitive:
  assumes "\<not> is_function (type child)" and "well_formed child"
  shows "AttachStep childRef child fill_opt idx =
           Some (ReactElement (type child) (key child) (RefObject childRef)
                   (fmupd ''children'' (get (props child) ''children'') (props child)))"
proof -
  from assms(2) have res: "defaults_resolved child"
    and key: "get (props child) ''key'' = Undefined"
    by (auto simp: well_formed_def RESERVED_PROPS_def get_def fmlookup_dom_iff split: option.splits)
  have "cloneElement child (fmupd ''ref'' (RefObject childRef) (props child))
          [get (props child) ''children''] =
        ReactElement (type child) (key child) (RefObject childRef)
          (fmupd ''children'' (get (props child) ''children'') (props child))"
    using key by (subst cloneElement_same [OF res]) (auto simp: RESERVED_PROPS_def)
  with assms(1) show ?thesis
    by (simp add: AttachStep_def)
qed

text \<open>
  Claim C5. For a well-formed child whose type is not a function, the result is the child
  itself with the reference in its \<^verbatim>\<open>ref\<close> field (in place of a reference of its own, if it
  had one): same type (no wrapper), same key, and properties that read the same at every
  name, \<^verbatim>\<open>children\<close> included. The only change to the properties is that \<^verbatim>\<open>children\<close> is now
  always present, holding what it read before.
\<close>

theorem primitive_child_cloned:
  assumes "\<not> is_function (type child)" and "well_formed child"
  shows "\<exists>clone.
           AttachStep childRef child fill_opt idx = Some clone
         \<and> type clone = type child
         \<and> key clone = key child
         \<and> ref clone = RefObject childRef
         \<and> props clone = fmupd ''children'' (get (props child) ''children'') (props child)
         \<and> (\<forall>k. get (props clone) k = get (props child) k)"
  unfolding AttachStep_primitive [OF assms]
  by simp

theorem primitive_child_cloned_witness:
  "\<not> is_function (type (ReactElement (HostComponent ''RCTText'') (Str ''title'') Null
        (fmupd ''numberOfLines'' (Num 1) (fmupd ''children'' (Str ''Hello'') fmempty))))
   \<and> well_formed (ReactElement (HostComponent ''RCTText'') (Str ''title'') Null
        (fmupd ''numberOfLines'' (Num 1) (fmupd ''children'' (Str ''Hello'') fmempty)))
   \<and> (\<exists>clone.
         AttachStep 7 (ReactElement (HostComponent ''RCTText'') (Str ''title'') Null
           (fmupd ''numberOfLines'' (Num 1) (fmupd ''children'' (Str ''Hello'') fmempty)))
           None (Single 3) = Some clone
         \<and> type clone = HostComponent ''RCTText''
         \<and> key clone = Str ''title''
         \<and> ref clone = RefObject 7
         \<and> get (props clone) ''numberOfLines'' = Num 1
         \<and> get (props clone) ''children'' = Str ''Hello'')"
proof -
  let ?child = "ReactElement (HostComponent ''RCTText'') (Str ''title'') Null
        (fmupd ''numberOfLines'' (Num 1) (fmupd ''children'' (Str ''Hello'') fmempty))"
  have p: "\<not> is_function (type ?child)" by simp
  have w: "well_formed ?child"
    by (simp add: well_formed_def defaults_resolved_def RESERVED_PROPS_def)
  from primitive_child_cloned [OF p w, of 7 None "Single 3"]
  obtain clone where "AttachStep 7 ?child None (Single 3) = Some clone"
    "type clone = type ?child" "key clone = key ?child" "ref clone = RefObject 7"
    "\<forall>k. get (props clone) k = get (props ?child) k"
    by blast
  then have "AttachStep 7 ?child None (Single 3) = Some clone
      \<and> type clone = HostComponent ''RCTText'' \<and> key clone = Str ''title''
      \<and> ref clone = RefObject 7
      \<and> get (props clone) ''numberOfLines'' = Num 1
      \<and> get (props clone) ''children'' = Str ''Hello''"
    by simp
  with p w show ?thesis by blast
qed

text \<open>
  Claim C10. For a child whose type is not a function, the result does not depend on
  \<open>fill\<close>: any two values of the flag, left out or not, give the same element.
\<close>

theorem primitive_ignores_fill:
  "\<not> is_function (type child) \<Longrightarrow>
   AttachStep childRef child fill_opt idx = AttachStep childRef child fill_opt' idx"
  by (simp add: AttachStep_def)

theorem primitive_ignores_fill_witness:
  "\<not> is_function (type (ReactElement (HostComponent ''RCTText'') Null Null
        (fmupd ''children'' (Str ''Hello'') fmempty)))
   \<and> AttachStep 7 (ReactElement (HostComponent ''RCTText'') Null Null
        (fmupd ''children'' (Str ''Hello'') fmempty)) (Some True) (Single 3)
     = AttachStep 7 (ReactElement (HostComponent ''RCTText'') Null Null
        (fmupd ''children'' (Str ''Hello'') fmempty)) (Some False) (Single 3)"
  using primitive_ignores_fill
    [of "ReactElement (HostComponent ''RCTText'') Null Null
        (fmupd ''children'' (Str ''Hello'') fmempty)" 7 "Some True" "Single 3" "Some False"]
  by simp

end
